theory Spec2Isabelle
  imports Main
begin

section \<open>The C++ library the calculator is built on\<close>

subsection \<open>Doubles\<close>

text \<open>
  The C++ type \<^verbatim>\<open>double\<close> is IEEE 754 binary64. \<open>Finite s m e\<close> is the number
  \<open>(-1)\<^sup>s \<sqdot> m \<sqdot> 2\<^sup>e\<close>; every operation below returns the canonical form (zero as
  \<open>Finite s 0 0\<close>; otherwise \<open>m < 2\<^sup>5\<^sup>3\<close> and \<open>-1074 \<le> e \<le> 971\<close>, with
  \<open>2\<^sup>5\<^sup>2 \<le> m\<close> unless \<open>e = -1074\<close>). The sign of a NaN is kept because the
  formatter prints it; its payload is not modelled.
\<close>

datatype double = Finite bool nat int | Infinity bool | NaN bool

definition emin :: int where
  "emin = - 1074"

definition emax :: int where
  "emax = 971"

text \<open>The number of binary digits of \<open>n\<close>.\<close>

fun bit_length_from :: "nat \<Rightarrow> nat \<Rightarrow> nat" where
  "bit_length_from k n = (if n = 0 then k else bit_length_from (k + 1) (n div 2))"

declare bit_length_from.simps [simp del]

definition bit_length :: "nat \<Rightarrow> nat" where
  "bit_length n = bit_length_from 0 n"

text \<open>
  Exact non-negative values are fractions \<open>(n, d)\<close> of naturals; \<open>shift_fraction n d k\<close> is
  \<open>n / d \<sqdot> 2\<^sup>k\<close> and \<open>scale10 x k\<close> is \<open>x \<sqdot> 10\<^sup>k\<close>.
\<close>

definition shift_fraction :: "nat \<Rightarrow> nat \<Rightarrow> int \<Rightarrow> nat \<times> nat" where
  "shift_fraction n d k = (if 0 \<le> k then (n * 2 ^ nat k, d) else (n, d * 2 ^ nat (- k)))"

definition scale10 :: "nat \<times> nat \<Rightarrow> int \<Rightarrow> nat \<times> nat" where
  "scale10 x k =
     (if 0 \<le> k then (fst x * 10 ^ nat k, snd x) else (fst x, snd x * 10 ^ nat (- k)))"

text \<open>The integer nearest to a fraction, ties going to the even neighbour.\<close>

definition round_half_even :: "nat \<times> nat \<Rightarrow> nat" where
  "round_half_even x =
     (let q = fst x div snd x; r = fst x mod snd x
      in if snd x < 2 * r \<or> (2 * r = snd x \<and> odd q) then q + 1 else q)"

text \<open>
  Rounding the exact value \<open>n / d \<sqdot> 2\<^sup>e\<close> to the nearest double (round to nearest,
  ties to even, the default rounding mode): \<open>normal_exponent\<close> is the exponent of the
  last place of a 53-bit significand, \<open>binary_exponent\<close> the exponent of the result's
  last place, which is at least \<open>emin\<close> (below that the result is subnormal); a
  significand rounded up to \<open>2\<^sup>5\<^sup>3\<close> is renormalised, and a result beyond the largest
  finite double is an infinity.
\<close>

definition normal_exponent :: "nat \<Rightarrow> nat \<Rightarrow> int \<Rightarrow> int" where
  "normal_exponent n d e =
     (let e0 = int (bit_length n) - int (bit_length d) - 53;
          y = shift_fraction n d (- e0);
          e1 = (if 2 ^ 53 \<le> fst y div snd y then e0 + 1 else e0)
      in e1 + e)"

definition binary_exponent :: "nat \<Rightarrow> nat \<Rightarrow> int \<Rightarrow> int" where
  "binary_exponent n d e = max (normal_exponent n d e) emin"

definition round_double :: "bool \<Rightarrow> nat \<Rightarrow> nat \<Rightarrow> int \<Rightarrow> double" where
  "round_double s n d e =
     (if n = 0 then Finite s 0 0
      else let r = binary_exponent n d e;
               q = round_half_even (shift_fraction n d (e - r));
               m = (if q = 2 ^ 53 then 2 ^ 52 else q);
               r' = (if q = 2 ^ 53 then r + 1 else r)
           in if emax < r' then Infinity s
              else if m = 0 then Finite s 0 0
              else Finite s m r')"

text \<open>
  The NaN produced by an invalid operation (\<open>\<infinity> - \<infinity>\<close>, \<open>0 \<sqdot> \<infinity>\<close>, \<open>0 / 0\<close>,
  \<open>\<infinity> / \<infinity>\<close>). IEEE 754 leaves its sign open; x86-64 sets the sign bit. An
  operation with a NaN operand returns that operand (the first one, if both are).
\<close>

definition default_nan :: double where
  "default_nan = NaN True"

definition signed :: "bool \<Rightarrow> nat \<Rightarrow> int" where
  "signed s n = (if s then - int n else int n)"

fun fneg :: "double \<Rightarrow> double" where
  "fneg (Finite s m e) = Finite (\<not> s) m e"
| "fneg (Infinity s) = Infinity (\<not> s)"
| "fneg (NaN s) = NaN (\<not> s)"

fun fabs :: "double \<Rightarrow> double" where
  "fabs (Finite s m e) = Finite False m e"
| "fabs (Infinity s) = Infinity False"
| "fabs (NaN s) = NaN False"

fun signbit :: "double \<Rightarrow> bool" where
  "signbit (Finite s m e) = s"
| "signbit (Infinity s) = s"
| "signbit (NaN s) = s"

fun isnan :: "double \<Rightarrow> bool" where
  "isnan (NaN s) = True"
| "isnan _ = False"

fun isinf :: "double \<Rightarrow> bool" where
  "isinf (Infinity s) = True"
| "isinf _ = False"

text \<open>The operators \<^verbatim>\<open>+\<close>, \<^verbatim>\<open>-\<close>, \<^verbatim>\<open>*\<close> and \<^verbatim>\<open>/\<close> on doubles.\<close>

fun fadd :: "double \<Rightarrow> double \<Rightarrow> double" where
  "fadd (NaN s) b = NaN s"
| "fadd a (NaN t) = NaN t"
| "fadd (Infinity s) (Infinity t) = (if s = t then Infinity s else default_nan)"
| "fadd (Infinity s) (Finite t n f) = Infinity s"
| "fadd (Finite s m e) (Infinity t) = Infinity t"
| "fadd (Finite s m e) (Finite t n f) =
     (let g = min e f;
          c = signed s (m * 2 ^ nat (e - g)) + signed t (n * 2 ^ nat (f - g))
      in if c = 0 then Finite (s \<and> t) 0 0
         else round_double (c < 0) (nat \<bar>c\<bar>) 1 g)"

fun fsub :: "double \<Rightarrow> double \<Rightarrow> double" where
  "fsub (NaN s) b = NaN s"
| "fsub a (NaN t) = NaN t"
| "fsub a b = fadd a (fneg b)"

fun fmul :: "double \<Rightarrow> double \<Rightarrow> double" where
  "fmul (NaN s) b = NaN s"
| "fmul a (NaN t) = NaN t"
| "fmul (Infinity s) (Infinity t) = Infinity (s \<noteq> t)"
| "fmul (Infinity s) (Finite t n f) = (if n = 0 then default_nan else Infinity (s \<noteq> t))"
| "fmul (Finite s m e) (Infinity t) = (if m = 0 then default_nan else Infinity (s \<noteq> t))"
| "fmul (Finite s m e) (Finite t n f) = round_double (s \<noteq> t) (m * n) 1 (e + f)"

fun fdiv :: "double \<Rightarrow> double \<Rightarrow> double" where
  "fdiv (NaN s) b = NaN s"
| "fdiv a (NaN t) = NaN t"
| "fdiv (Infinity s) (Infinity t) = default_nan"
| "fdiv (Infinity s) (Finite t n f) = Infinity (s \<noteq> t)"
| "fdiv (Finite s m e) (Infinity t) = Finite (s \<noteq> t) 0 0"
| "fdiv (Finite s m e) (Finite t n f) =
     (if n = 0 then (if m = 0 then default_nan else Infinity (s \<noteq> t))
      else round_double (s \<noteq> t) m n (e - f))"

text \<open>The comparisons \<^verbatim>\<open><\<close>, \<^verbatim>\<open>==\<close> and \<^verbatim>\<open>!=\<close>: false (true for \<^verbatim>\<open>!=\<close>) when an operand is a NaN.\<close>

fun flt :: "double \<Rightarrow> double \<Rightarrow> bool" where
  "flt (NaN s) b = False"
| "flt a (NaN t) = False"
| "flt (Infinity s) (Infinity t) = (s \<and> \<not> t)"
| "flt (Infinity s) (Finite t n f) = s"
| "flt (Finite s m e) (Infinity t) = (\<not> t)"
| "flt (Finite s m e) (Finite t n f) =
     (let g = min e f
      in signed s (m * 2 ^ nat (e - g)) < signed t (n * 2 ^ nat (f - g)))"

fun feq :: "double \<Rightarrow> double \<Rightarrow> bool" where
  "feq (NaN s) b = False"
| "feq a (NaN t) = False"
| "feq (Infinity s) (Infinity t) = (s = t)"
| "feq (Infinity s) (Finite t n f) = False"
| "feq (Finite s m e) (Infinity t) = False"
| "feq (Finite s m e) (Finite t n f) =
     (let g = min e f
      in signed s (m * 2 ^ nat (e - g)) = signed t (n * 2 ^ nat (f - g)))"

definition fne :: "double \<Rightarrow> double \<Rightarrow> bool" where
  "fne a b = (\<not> feq a b)"

text \<open>\<^verbatim>\<open>std::round\<close>: the nearest integer, halfway cases away from zero.\<close>

fun fround :: "double \<Rightarrow> double" where
  "fround (Finite s m e) =
     (if 0 \<le> e then Finite s m e
      else let d = 2 ^ nat (- e); q = m div d; r = m mod d
           in round_double s (if d \<le> 2 * r then q + 1 else q) 1 0)"
| "fround (Infinity s) = Infinity s"
| "fround (NaN s) = NaN s"

text \<open>
  The double a decimal literal stands for: \<open>of_decimal k x\<close> is \<open>k \<sqdot> 10\<^sup>x\<close> rounded
  to the nearest double, \<open>dzero\<close> is the literal \<^verbatim>\<open>0.0\<close> (and the \<^verbatim>\<open>int\<close> 0 converted).
\<close>

definition of_decimal :: "nat \<Rightarrow> int \<Rightarrow> double" where
  "of_decimal k x =
     round_double False (fst (scale10 (k, 1) x)) (snd (scale10 (k, 1) x)) 0"

definition dzero :: double where
  "dzero = Finite False 0 0"

subsection \<open>Text to double\<close>

text \<open>
  \<^verbatim>\<open>std::stod\<close> calls \<^verbatim>\<open>strtod\<close> and throws \<^verbatim>\<open>std::invalid_argument\<close> when no
  conversion could be performed and \<^verbatim>\<open>std::out_of_range\<close> when \<^verbatim>\<open>strtod\<close> reports
  \<^verbatim>\<open>ERANGE\<close>. It reads the longest prefix of the text that is a number and ignores the rest.
\<close>

datatype exception = invalid_argument | out_of_range

definition isspace :: "char \<Rightarrow> bool" where
  "isspace c = (c \<in> set [CHR '' '', CHR 0x09, CHR 0x0A, CHR 0x0B, CHR 0x0C, CHR 0x0D])"

definition digit_val :: "char \<Rightarrow> nat option" where
  "digit_val = map_of (zip ''0123456789'' [0, 1, 2, 3, 4, 5, 6, 7, 8, 9])"

definition xdigit_val :: "char \<Rightarrow> nat option" where
  "xdigit_val = map_of (zip ''0123456789abcdefABCDEF''
     [0, 1, 2, 3, 4, 5, 6, 7, 8, 9, 10, 11, 12, 13, 14, 15, 10, 11, 12, 13, 14, 15])"

definition isdigit :: "char \<Rightarrow> bool" where
  "isdigit c = (digit_val c \<noteq> None)"

definition isxdigit :: "char \<Rightarrow> bool" where
  "isxdigit c = (xdigit_val c \<noteq> None)"

definition tolower :: "char \<Rightarrow> char" where
  "tolower c =
     (case map_of (zip ''ABCDEFGHIJKLMNOPQRSTUVWXYZ'' ''abcdefghijklmnopqrstuvwxyz'') c of
        Some l \<Rightarrow> l
      | None \<Rightarrow> c)"

text \<open>The value of a digit sequence in the given base.\<close>

definition numeral_value :: "nat \<Rightarrow> (char \<Rightarrow> nat option) \<Rightarrow> string \<Rightarrow> nat" where
  "numeral_value base val ds =
     foldl (\<lambda>a c. base * a + (case val c of Some v \<Rightarrow> v | None \<Rightarrow> 0)) 0 ds"

definition take_sign :: "string \<Rightarrow> bool \<times> string" where
  "take_sign cs =
     (case cs of
        [] \<Rightarrow> (False, [])
      | c # t \<Rightarrow> if c = CHR ''-'' then (True, t) else if c = CHR ''+'' then (False, t) else (False, cs))"

text \<open>
  An exponent part is one of the marker characters, an optional sign and at least one
  decimal digit; when it is absent or incomplete the exponent is 0.
\<close>

definition exponent_part :: "string \<Rightarrow> string \<Rightarrow> int" where
  "exponent_part marks cs =
     (case cs of
        [] \<Rightarrow> 0
      | c # t \<Rightarrow>
          if c \<in> set marks
          then (let ds = takeWhile isdigit (snd (take_sign t))
                in if ds = [] then 0
                   else if fst (take_sign t) then - int (numeral_value 10 digit_val ds)
                   else int (numeral_value 10 digit_val ds))
          else 0)"

text \<open>
  A decimal number is a digit sequence with at most one decimal point and at least one
  digit, then an optional exponent part marked \<^verbatim>\<open>e\<close> or \<^verbatim>\<open>E\<close>; a hexadecimal number
  is \<^verbatim>\<open>0x\<close> or \<^verbatim>\<open>0X\<close>, hexadecimal digits in the same shape, and an optional binary
  exponent marked \<^verbatim>\<open>p\<close> or \<^verbatim>\<open>P\<close>. Both yield the exact value \<open>n / d \<sqdot> 2\<^sup>e\<close> as
  \<open>(n, d, e)\<close>.
\<close>

definition after_point :: "string \<Rightarrow> string" where
  "after_point cs = (case cs of [] \<Rightarrow> [] | c # t \<Rightarrow> if c = CHR ''.'' then t else [])"

definition has_point :: "string \<Rightarrow> bool" where
  "has_point cs = (case cs of [] \<Rightarrow> False | c # t \<Rightarrow> c = CHR ''.'')"

definition decimal_fraction :: "string \<Rightarrow> (nat \<times> nat \<times> int) option" where
  "decimal_fraction cs =
     (let ip = takeWhile isdigit cs;
          r = dropWhile isdigit cs;
          fp = takeWhile isdigit (after_point r);
          r' = (if has_point r then dropWhile isdigit (after_point r) else r)
      in if ip = [] \<and> fp = [] then None
         else let x = scale10 (numeral_value 10 digit_val (ip @ fp), 1)
                        (exponent_part ''eE'' r' - int (length fp))
              in Some (fst x, snd x, 0))"

definition hex_fraction :: "string \<Rightarrow> (nat \<times> nat \<times> int) option" where
  "hex_fraction cs =
     (let ip = takeWhile isxdigit cs;
          r = dropWhile isxdigit cs;
          fp = takeWhile isxdigit (after_point r);
          r' = (if has_point r then dropWhile isxdigit (after_point r) else r)
      in if ip = [] \<and> fp = [] then None
         else Some (numeral_value 16 xdigit_val (ip @ fp), 1,
                    exponent_part ''pP'' r' - 4 * int (length fp)))"

definition hex_prefix :: "string \<Rightarrow> bool" where
  "hex_prefix cs = (map tolower (take 2 cs) = ''0x'')"

text \<open>The magnitude of a finite double as a fraction.\<close>

definition fraction_of :: "double \<Rightarrow> nat \<times> nat" where
  "fraction_of v = (case v of Finite s m e \<Rightarrow> shift_fraction m 1 e | _ \<Rightarrow> (0, 1))"

text \<open>
  The exact value is rounded to the nearest double. \<^verbatim>\<open>ERANGE\<close> is reported when the
  result overflows to an infinity and, as glibc on x86-64 does, when the result is tiny
  and inexact. Tininess is detected after rounding: a non-zero value is tiny when,
  rounded to a 53-bit significand with no bound on the exponent, it is still below the
  smallest normal number \<open>2\<^sup>-\<^sup>1\<^sup>0\<^sup>2\<^sup>2\<close>, that is when its last place is below \<open>emin\<close>.
\<close>

definition tiny_after_rounding :: "nat \<Rightarrow> nat \<Rightarrow> int \<Rightarrow> bool" where
  "tiny_after_rounding n d e =
     (n \<noteq> 0 \<and>
      (let r = normal_exponent n d e;
           q = round_half_even (shift_fraction n d (e - r))
       in (if q = 2 ^ 53 then r + 1 else r) < emin))"

definition convert :: "bool \<Rightarrow> nat \<Rightarrow> nat \<Rightarrow> int \<Rightarrow> double \<times> bool" where
  "convert neg n d e =
     (let v = round_double neg n d e;
          y = shift_fraction n d e;
          inexact = (fst y * snd (fraction_of v) \<noteq> fst (fraction_of v) * snd y)
      in (v, isinf v \<or> (tiny_after_rounding n d e \<and> inexact)))"

definition convert_parsed :: "bool \<Rightarrow> (nat \<times> nat \<times> int) option \<Rightarrow> (double \<times> bool) option" where
  "convert_parsed neg p =
     (case p of
        None \<Rightarrow> None
      | Some x \<Rightarrow> Some (convert neg (fst x) (fst (snd x)) (snd (snd x))))"

text \<open>
  \<^verbatim>\<open>strtod\<close> in the C locale: leading white space is skipped, then an optional sign,
  then \<^verbatim>\<open>inf\<close> or \<^verbatim>\<open>nan\<close> in any letter case, a hexadecimal number or a decimal number.
  The result is the value with the \<^verbatim>\<open>ERANGE\<close> flag, or \<open>None\<close> when nothing was converted.
\<close>

definition strtod :: "string \<Rightarrow> (double \<times> bool) option" where
  "strtod str =
     (let neg = fst (take_sign (dropWhile isspace str));
          cs = snd (take_sign (dropWhile isspace str))
      in if map tolower (take 3 cs) = ''inf'' then Some (Infinity neg, False)
         else if map tolower (take 3 cs) = ''nan'' then Some (NaN neg, False)
         else case (if hex_prefix cs then hex_fraction (drop 2 cs) else None) of
                Some x \<Rightarrow> convert_parsed neg (Some x)
              | None \<Rightarrow> convert_parsed neg (decimal_fraction cs))"

definition stod :: "string \<Rightarrow> exception + double" where
  "stod str =
     (case strtod str of
        None \<Rightarrow> Inl invalid_argument
      | Some r \<Rightarrow> if snd r then Inl out_of_range else Inr (fst r))"

subsection \<open>Double to text\<close>

text \<open>The decimal digits of a natural number, without leading zeros.\<close>

fun digits_of :: "nat \<Rightarrow> string" where
  "digits_of n =
     (if n < 10 then [''0123456789'' ! n]
      else digits_of (n div 10) @ [''0123456789'' ! (n mod 10)])"

declare digits_of.simps [simp del]

text \<open>
  The decimal exponent of a positive fraction \<open>n / d\<close>, that is \<open>\<lfloor>log\<^sub>1\<^sub>0 (n / d)\<rfloor>\<close>:
  \<open>log10_up\<close> counts the powers of ten that fit below \<open>n / d \<ge> 1\<close>, \<open>log10_down\<close> the
  powers of ten needed to lift \<open>n / d < 1\<close> to at least 1.
\<close>

function log10_up :: "nat \<Rightarrow> nat \<Rightarrow> nat" where
  "log10_up n d = (if d = 0 \<or> n < 10 * d then 0 else Suc (log10_up n (10 * d)))"
  by pat_completeness auto
termination
  by (relation "measure (\<lambda>(n, d). n - d)") auto

declare log10_up.simps [simp del]

function log10_down :: "nat \<Rightarrow> nat \<Rightarrow> nat" where
  "log10_down n d = (if n = 0 \<or> d \<le> n then 0 else Suc (log10_down (10 * n) d))"
  by pat_completeness auto
termination
  by (relation "measure (\<lambda>(n, d). d - n)") auto

declare log10_down.simps [simp del]

definition decimal_exponent :: "nat \<times> nat \<Rightarrow> int" where
  "decimal_exponent x =
     (if snd x \<le> fst x then int (log10_up (fst x) (snd x))
      else - int (log10_down (fst x) (snd x)))"

text \<open>
  The conversions of \<^verbatim>\<open>printf\<close>, which the stream inserter of a double uses.
  \<open>fixed_digits p x\<close> is \<^verbatim>\<open>%.pf\<close> of a magnitude: \<open>x\<close> rounded to \<open>p\<close> decimals, the
  decimal point present when \<open>p > 0\<close>. \<open>rounded_exponent p x\<close> is the decimal exponent of
  \<open>x\<close> once rounded to \<open>p + 1\<close> significant digits, \<open>exp_digits p x\<close> and \<open>exp_suffix\<close>
  are the significand and the exponent field of \<^verbatim>\<open>%.pe\<close>. \<open>strip_zeros\<close> removes the
  trailing zeros of a fraction and a decimal point left at the end.
\<close>

definition sign_str :: "bool \<Rightarrow> string" where
  "sign_str s = (if s then ''-'' else [])"

definition pad_zeros :: "nat \<Rightarrow> string \<Rightarrow> string" where
  "pad_zeros w ds = replicate (w - length ds) CHR ''0'' @ ds"

definition fixed_digits :: "nat \<Rightarrow> nat \<times> nat \<Rightarrow> string" where
  "fixed_digits p x =
     (let k = round_half_even (scale10 x (int p))
      in digits_of (k div 10 ^ p) @
         (if p = 0 then [] else CHR ''.'' # pad_zeros p (digits_of (k mod 10 ^ p))))"

definition rounded_exponent :: "nat \<Rightarrow> nat \<times> nat \<Rightarrow> int" where
  "rounded_exponent p x =
     (if fst x = 0 then 0
      else let e = decimal_exponent x
           in if round_half_even (scale10 x (int p - e)) = 10 ^ Suc p then e + 1 else e)"

definition exp_digits :: "nat \<Rightarrow> nat \<times> nat \<Rightarrow> string" where
  "exp_digits p x =
     (let ds = pad_zeros (Suc p)
                 (digits_of (round_half_even (scale10 x (int p - rounded_exponent p x))))
      in hd ds # (if p = 0 then [] else CHR ''.'' # tl ds))"

definition exp_suffix :: "int \<Rightarrow> string" where
  "exp_suffix e =
     CHR ''e'' # (if e < 0 then CHR ''-'' else CHR ''+'') # pad_zeros 2 (digits_of (nat \<bar>e\<bar>))"

definition strip_zeros :: "string \<Rightarrow> string" where
  "strip_zeros cs =
     (if CHR ''.'' \<in> set cs
      then (let r = dropWhile (\<lambda>c. c = CHR ''0'') (rev cs)
            in rev (case r of [] \<Rightarrow> [] | c # t \<Rightarrow> if c = CHR ''.'' then t else r))
      else cs)"

text \<open>
  \<open>fmt_fixed p\<close> is \<^verbatim>\<open>%.pf\<close> (a stream with \<^verbatim>\<open>std::fixed\<close> and precision \<open>p\<close>).
  \<open>fmt_general p\<close> is \<^verbatim>\<open>%.pg\<close> (a stream in its default float format with precision
  \<open>p\<close>): with \<open>P\<close> the precision (1 if \<open>p = 0\<close>) and \<open>X\<close> the decimal exponent of the
  value rounded to \<open>P\<close> significant digits, fixed notation with \<open>P - 1 - X\<close> decimals when
  \<open>-4 \<le> X < P\<close> and scientific notation with \<open>P - 1\<close> decimals otherwise, trailing zeros
  removed in both.
\<close>

definition fmt_fixed :: "nat \<Rightarrow> double \<Rightarrow> string" where
  "fmt_fixed p v =
     (case v of
        NaN s \<Rightarrow> sign_str s @ ''nan''
      | Infinity s \<Rightarrow> sign_str s @ ''inf''
      | Finite s m e \<Rightarrow> sign_str s @ fixed_digits p (shift_fraction m 1 e))"

definition fmt_general :: "nat \<Rightarrow> double \<Rightarrow> string" where
  "fmt_general p v =
     (case v of
        NaN s \<Rightarrow> sign_str s @ ''nan''
      | Infinity s \<Rightarrow> sign_str s @ ''inf''
      | Finite s m e \<Rightarrow>
          (let P = (if p = 0 then 1 else p);
               x = shift_fraction m 1 e;
               X = rounded_exponent (P - 1) x
           in if - 4 \<le> X \<and> X < int P
              then sign_str s @ strip_zeros (fixed_digits (nat (int P - 1 - X)) x)
              else sign_str s @ strip_zeros (exp_digits (P - 1) x) @ exp_suffix X))"

text \<open>\<^verbatim>\<open>std::to_string(double)\<close> is \<^verbatim>\<open>%f\<close>, six decimals.\<close>

definition to_string :: "double \<Rightarrow> string" where
  "to_string v = fmt_fixed 6 v"

section \<open>The calculator\<close>

subsection \<open>State and buttons\<close>

text \<open>
  The globals \<^verbatim>\<open>input_str\<close>, \<^verbatim>\<open>storedValue\<close>, \<^verbatim>\<open>currentOp\<close> and \<^verbatim>\<open>resetInput\<close>,
  with their initial values. \<^verbatim>\<open>currentOp == 0\<close> (the NUL character) means that no
  operator is pending.
\<close>

record calc_state =
  input_str :: string
  storedValue :: double
  currentOp :: char
  resetInput :: bool

definition initial_state :: calc_state where
  "initial_state = \<lparr>input_str = ''0'', storedValue = dzero, currentOp = CHR 0x00, resetInput = True\<rparr>"

text \<open>
  \<^verbatim>\<open>struct Button { SDL_Rect rect; std::string label; std::string type; char value; }\<close>.
  The rectangle is only read by the hit test and is left out; the fields \<^verbatim>\<open>type\<close> and
  \<^verbatim>\<open>value\<close> are \<open>btn_type\<close> and \<open>btn_value\<close> here.
\<close>

record Button =
  label :: string
  btn_type :: string
  btn_value :: char

text \<open>
  The buttons \<^verbatim>\<open>layout_buttons\<close> creates: each takes its label and type from the table
  and its value from \<^verbatim>\<open>btn.label[0]\<close> (the NUL character for an empty label). \<open>key l\<close>
  is the button labelled \<open>l\<close>.
\<close>

definition labels :: "(string \<times> string) list" where
  "labels =
     [(''7'', ''number''), (''8'', ''number''), (''9'', ''number''), (''/'', ''operator''),
      (''4'', ''number''), (''5'', ''number''), (''6'', ''number''), (''*'', ''operator''),
      (''1'', ''number''), (''2'', ''number''), (''3'', ''number''), (''-'', ''operator''),
      (''.'', ''number''), (''0'', ''number''), (''C'', ''clear''), (''+'', ''operator''),
      (''='', ''equals'')]"

definition make_button :: "string \<times> string \<Rightarrow> Button" where
  "make_button p =
     \<lparr>label = fst p, btn_type = snd p,
      btn_value = (case fst p of [] \<Rightarrow> CHR 0x00 | c # cs \<Rightarrow> c)\<rparr>"

definition buttons :: "Button list" where
  "buttons = map make_button labels"

definition key :: "string \<Rightarrow> Button" where
  "key l = (case find (\<lambda>b. label b = l) buttons of Some b \<Rightarrow> b
            | None \<Rightarrow> \<lparr>label = l, btn_type = [], btn_value = CHR 0x00\<rparr>)"

subsection \<open>Formatting a result\<close>

text \<open>
  \<^verbatim>\<open>ss << std::setprecision(10);
  if (std::abs(val - std::round(val)) < 1e-9) { ss << std::fixed << std::setprecision(0) << val; }
  else { ss << val; }\<close>
\<close>

definition near_integer :: "double \<Rightarrow> bool" where
  "near_integer val = flt (fabs (fsub val (fround val))) (of_decimal 1 (- 9))"

definition format_double :: "double \<Rightarrow> string" where
  "format_double val = (if near_integer val then fmt_fixed 0 val else fmt_general 10 val)"

subsection \<open>Evaluating the pending operation\<close>

text \<open>
  \<^verbatim>\<open>try { b = std::stod(input_str); } catch (...) { b = 0.0; }\<close>
\<close>

definition stod_or_zero :: "string \<Rightarrow> double" where
  "stod_or_zero str = (case stod str of Inl ex \<Rightarrow> dzero | Inr v \<Rightarrow> v)"

text \<open>
  \<open>binary_result\<close> is the \<^verbatim>\<open>switch (currentOp)\<close> of \<^verbatim>\<open>calculate_result\<close> on the paths
  that set no error: \<^verbatim>\<open>result\<close> keeps its initial 0 when no case matches. The one
  error path is division with \<^verbatim>\<open>b != 0\<close> false: the display becomes \<^verbatim>\<open>"Error"\<close> and
  \<^verbatim>\<open>storedValue\<close> 0. Every path past the first line ends with
  \<^verbatim>\<open>currentOp = 0; resetInput = true;\<close>.
\<close>

definition binary_result :: "char \<Rightarrow> double \<Rightarrow> double \<Rightarrow> double" where
  "binary_result op a b =
     (if op = CHR ''+'' then fadd a b
      else if op = CHR ''-'' then fsub a b
      else if op = CHR ''*'' then fmul a b
      else if op = CHR ''/'' then fdiv a b
      else dzero)"

definition calculate_result :: "calc_state \<Rightarrow> calc_state" where
  "calculate_result st =
     (if currentOp st = CHR 0x00 then st
      else
        let a = storedValue st;
            b = stod_or_zero (input_str st)
        in if currentOp st = CHR ''/'' \<and> \<not> fne b dzero
           then st\<lparr>input_str := ''Error'', storedValue := dzero,
                   currentOp := CHR 0x00, resetInput := True\<rparr>
           else
             let result = binary_result (currentOp st) a b
             in st\<lparr>input_str := format_double result, storedValue := result,
                    currentOp := CHR 0x00, resetInput := True\<rparr>)"

subsection \<open>Button presses\<close>

text \<open>
  In the operator branch the text left by \<^verbatim>\<open>calculate_result\<close> is parsed by a
  \<^verbatim>\<open>std::stod\<close> that stands outside any \<^verbatim>\<open>try\<close> block: its exception leaves
  \<^verbatim>\<open>handle_button_press\<close> and, nothing catching it, ends the program. That is the
  result \<open>Inl\<close>.
\<close>

definition handle_button_press :: "Button \<Rightarrow> calc_state \<Rightarrow> exception + calc_state" where
  "handle_button_press btn st =
     (if btn_type btn = ''number'' then
        (if resetInput st then
           Inr (st\<lparr>input_str := (if btn_value btn = CHR ''.'' then ''0.'' else label btn),
                   resetInput := False\<rparr>)
         else if btn_value btn = CHR ''.'' \<and> CHR ''.'' \<in> set (input_str st) then Inr st
         else if input_str st = ''0'' \<and> btn_value btn \<noteq> CHR ''.'' then
           Inr (st\<lparr>input_str := label btn\<rparr>)
         else Inr (st\<lparr>input_str := input_str st @ label btn\<rparr>))
      else if btn_type btn = ''operator'' then
        (case
           (if \<not> resetInput st then
              (if currentOp st \<noteq> CHR 0x00 then
                 (case stod (input_str (calculate_result st)) of
                    Inl ex \<Rightarrow> Inl ex
                  | Inr v \<Rightarrow> Inr ((calculate_result st)\<lparr>storedValue := v\<rparr>))
               else Inr (st\<lparr>storedValue := stod_or_zero (input_str st)\<rparr>))
            else Inr st)
         of
           Inl ex \<Rightarrow> Inl ex
         | Inr st1 \<Rightarrow> Inr (st1\<lparr>currentOp := btn_value btn, resetInput := True\<rparr>))
      else if btn_type btn = ''clear'' then
        Inr (st\<lparr>input_str := ''0'', storedValue := dzero, currentOp := CHR 0x00,
                resetInput := True\<rparr>)
      else if btn_type btn = ''equals'' then Inr (calculate_result st)
      else Inr st)"

text \<open>A sequence of presses, stopping at the first exception.\<close>

fun press_all :: "Button list \<Rightarrow> calc_state \<Rightarrow> exception + calc_state" where
  "press_all [] st = Inr st"
| "press_all (btn # rest) st =
     (case handle_button_press btn st of
        Inl ex \<Rightarrow> Inl ex
      | Inr st1 \<Rightarrow> press_all rest st1)"

section \<open>The feature add-on\<close>

subsection \<open>Checked calculation\<close>

text \<open>
  \<^verbatim>\<open>safeCalculate\<close> returns early with \<^verbatim>\<open>"Error: Div by 0"\<close> for a division by
  \<^verbatim>\<open>b == 0\<close> and with \<^verbatim>\<open>"Error"\<close> for an unknown operator; otherwise a NaN or
  infinite result gives \<^verbatim>\<open>"Error"\<close> and any other result its \<^verbatim>\<open>std::to_string\<close>.
\<close>

definition safeCalculate :: "double \<Rightarrow> double \<Rightarrow> char \<Rightarrow> string" where
  "safeCalculate a b op =
     (case
        (if op = CHR ''+'' then Inr (fadd a b)
         else if op = CHR ''-'' then Inr (fsub a b)
         else if op = CHR ''*'' then Inr (fmul a b)
         else if op = CHR ''/'' then
           (if feq b dzero then Inl ''Error: Div by 0'' else Inr (fdiv a b))
         else Inl ''Error'')
      of
        Inl early \<Rightarrow> early
      | Inr result \<Rightarrow> if isnan result \<or> isinf result then ''Error'' else to_string result)"

subsection \<open>Calculation history\<close>

text \<open>
  \<^verbatim>\<open>struct HistoryEntry { std::string expression; std::string result; };\<close>
  The class \<^verbatim>\<open>CalculatorHistory\<close> owns a \<^verbatim>\<open>std::deque<HistoryEntry> history\<close> and the
  constant \<^verbatim>\<open>maxHistory = 10\<close>. The deque is a list whose head is the front.
\<close>

record HistoryEntry =
  expression :: string
  result :: string

record CalculatorHistory =
  history :: "HistoryEntry list"

definition maxHistory :: nat where
  "maxHistory = 10"

text \<open>A freshly constructed object: the deque is empty.\<close>

definition new_history :: CalculatorHistory where
  "new_history = \<lparr>history = []\<rparr>"

text \<open>
  \<^verbatim>\<open>history.push_front({expr, result});
  if (history.size() > maxHistory) { history.pop_back(); }\<close>
\<close>

definition addEntry :: "string \<Rightarrow> string \<Rightarrow> CalculatorHistory \<Rightarrow> CalculatorHistory" where
  "addEntry expr res h =
     (let pushed = \<lparr>expression = expr, result = res\<rparr> # history h
      in if length pushed > maxHistory
         then h\<lparr>history := butlast pushed\<rparr>
         else h\<lparr>history := pushed\<rparr>)"

definition clear_history :: "CalculatorHistory \<Rightarrow> CalculatorHistory" where
  "clear_history h = h\<lparr>history := []\<rparr>"

definition getHistory :: "CalculatorHistory \<Rightarrow> HistoryEntry list" where
  "getHistory h = history h"

text \<open>A sequence of \<^verbatim>\<open>addEntry\<close> calls, first call first.\<close>

fun addEntries :: "(string \<times> string) list \<Rightarrow> CalculatorHistory \<Rightarrow> CalculatorHistory" where
  "addEntries [] h = h"
| "addEntries ((expr, res) # rest) h = addEntries rest (addEntry expr res h)"

definition entry_of :: "string \<times> string \<Rightarrow> HistoryEntry" where
  "entry_of p = \<lparr>expression = fst p, result = snd p\<rparr>"

subsection \<open>Backspace\<close>

text \<open>
  \<^verbatim>\<open>if (display.length() > 1) { display.pop_back(); } else { display = "0"; }\<close>
\<close>

definition backspaceInput :: "string \<Rightarrow> string" where
  "backspaceInput display =
     (if length display > 1 then butlast display else ''0'')"

subsection \<open>Reading a formatted number\<close>



section \<open>Evaluation\<close>

lemmas fp_eval = emin_def emax_def shift_fraction_def scale10_def round_half_even_def
  normal_exponent_def binary_exponent_def round_double_def default_nan_def signed_def
  of_decimal_def
  bit_length_def bit_length_from.simps Let_def dzero_def fne_def

lemmas parse_eval = stod_def strtod_def convert_def tiny_after_rounding_def
  convert_parsed_def fraction_of_def
  hex_prefix_def hex_fraction_def decimal_fraction_def has_point_def after_point_def
  exponent_part_def take_sign_def numeral_value_def tolower_def isxdigit_def isdigit_def
  xdigit_val_def digit_val_def isspace_def stod_or_zero_def

lemmas format_eval = format_double_def near_integer_def fmt_general_def fmt_fixed_def
  strip_zeros_def exp_suffix_def exp_digits_def rounded_exponent_def fixed_digits_def
  pad_zeros_def sign_str_def decimal_exponent_def log10_up.simps log10_down.simps
  digits_of.simps to_string_def

lemmas calc_eval = calculate_result_def binary_result_def handle_button_press_def key_def
  buttons_def labels_def make_button_def initial_state_def

lemmas eval_cong = if_weak_cong let_weak_cong option.case_cong_weak list.case_cong_weak
  sum.case_cong_weak

lemma calc_state_eq:
  "(st :: calc_state) = \<lparr>input_str = input_str st, storedValue = storedValue st,
     currentOp = currentOp st, resetInput = resetInput st\<rparr>"
  by simp

section \<open>Equals and operators\<close>

text \<open>
  Claim C10. In every state in which no operator is pending (\<^verbatim>\<open>currentOp == 0\<close>) the
  Equals button changes nothing: \<^verbatim>\<open>calculate_result\<close> returns at once, so the display,
  the stored operand, the pending operator and the new-entry flag are all as before.
\<close>

theorem C10_equals_without_pending_operator:
  assumes "btn_type btn = ''equals''" and "currentOp st = CHR 0x00"
  shows "calculate_result st = st \<and> handle_button_press btn st = Inr st"
  using assms by (simp add: handle_button_press_def calculate_result_def)

theorem C10_equals_without_pending_operator_witness:
  "handle_button_press (key ''='') initial_state = Inr initial_state \<and>
   handle_button_press (key ''='')
     \<lparr>input_str = ''12.5'', storedValue = of_decimal 7 0, currentOp = CHR 0x00, resetInput = False\<rparr> =
   Inr \<lparr>input_str = ''12.5'', storedValue = of_decimal 7 0, currentOp = CHR 0x00, resetInput = False\<rparr>"
  using C10_equals_without_pending_operator [of "key ''=''" initial_state]
    C10_equals_without_pending_operator [of "key ''=''"
      "\<lparr>input_str = ''12.5'', storedValue = of_decimal 7 0, currentOp = CHR 0x00, resetInput = False\<rparr>"]
  by (simp add: key_def buttons_def labels_def make_button_def initial_state_def)

lemma operator_sets_resetInput:
  assumes "btn_type btn = ''operator''" and "handle_button_press btn st = Inr st1"
  shows "resetInput st1 \<and> currentOp st1 = btn_value btn"
  using assms
  by (auto simp: handle_button_press_def split: if_splits sum.splits)

text \<open>
  Claim C8. When an operator button has just been pressed (the press returned), a second
  operator button pressed right after it evaluates nothing and parses nothing: the
  display, the stored operand and the new-entry flag stay as they are and only the
  pending operator is replaced by the second one.
\<close>

theorem C8_operator_after_operator:
  assumes "btn_type b1 = ''operator''" and "btn_type b2 = ''operator''"
    and "handle_button_press b1 st = Inr st1"
  shows "handle_button_press b2 st1 = Inr (st1\<lparr>currentOp := btn_value b2\<rparr>)"
proof -
  have "resetInput st1"
    using operator_sets_resetInput [OF assms(1) assms(3)] by simp
  then show ?thesis
    using assms(2) by (simp add: handle_button_press_def)
qed

section \<open>Entering a number\<close>

text \<open>
  Claim C7. A number button (a digit or the decimal point) pressed while a new entry is
  awaited replaces the display by "0." for the decimal point and by the button's label
  otherwise, and clears the flag. Pressed while no new entry is awaited: a decimal point
  is ignored when the display already has one; a button other than the decimal point
  replaces a display that is exactly "0" by its label; in every other case the label is
  appended to the display.
\<close>

theorem C7_number_entry:
  assumes "btn_type btn = ''number''"
  shows "(resetInput st \<longrightarrow>
            handle_button_press btn st =
              Inr (st\<lparr>input_str := (if btn_value btn = CHR ''.'' then ''0.'' else label btn),
                      resetInput := False\<rparr>)) \<and>
         (\<not> resetInput st \<and> btn_value btn = CHR ''.'' \<and> CHR ''.'' \<in> set (input_str st) \<longrightarrow>
            handle_button_press btn st = Inr st) \<and>
         (\<not> resetInput st \<and> btn_value btn \<noteq> CHR ''.'' \<and> input_str st = ''0'' \<longrightarrow>
            handle_button_press btn st = Inr (st\<lparr>input_str := label btn\<rparr>)) \<and>
         (\<not> resetInput st \<and> \<not> (btn_value btn = CHR ''.'' \<and> CHR ''.'' \<in> set (input_str st)) \<and>
          \<not> (btn_value btn \<noteq> CHR ''.'' \<and> input_str st = ''0'') \<longrightarrow>
            handle_button_press btn st = Inr (st\<lparr>input_str := input_str st @ label btn\<rparr>))"
  using assms by (simp add: handle_button_press_def)


theorem C8_operator_after_operator_witness:
  "handle_button_press (key ''+'')
     \<lparr>input_str = ''2'', storedValue = dzero, currentOp = CHR 0x00, resetInput = False\<rparr> =
   Inr \<lparr>input_str = ''2'', storedValue = of_decimal 2 0, currentOp = CHR ''+'', resetInput = True\<rparr> \<and>
   handle_button_press (key ''-'')
     \<lparr>input_str = ''2'', storedValue = of_decimal 2 0, currentOp = CHR ''+'', resetInput = True\<rparr> =
   Inr \<lparr>input_str = ''2'', storedValue = of_decimal 2 0, currentOp = CHR ''-'', resetInput = True\<rparr>"
proof -
  let ?s0 = "\<lparr>input_str = ''2'', storedValue = dzero, currentOp = CHR 0x00, resetInput = False\<rparr>"
  let ?s1 = "\<lparr>input_str = ''2'', storedValue = of_decimal 2 0, currentOp = CHR ''+'', resetInput = True\<rparr>"
  have t1: "btn_type (key ''+'') = ''operator''" and t2: "btn_type (key ''-'') = ''operator''"
    and v2: "btn_value (key ''-'') = CHR ''-''"
    by (simp_all add: key_def buttons_def labels_def make_button_def)
  have first: "handle_button_press (key ''+'') ?s0 = Inr ?s1"
    by (simp add: calc_eval parse_eval fp_eval cong: eval_cong)
  show ?thesis
    using first C8_operator_after_operator [OF t1 t2 first] v2 by simp
qed

theorem C7_number_entry_witness:
  "handle_button_press (key ''.'')
     \<lparr>input_str = ''0'', storedValue = dzero, currentOp = CHR 0x00, resetInput = True\<rparr> =
   Inr \<lparr>input_str = ''0.'', storedValue = dzero, currentOp = CHR 0x00, resetInput = False\<rparr> \<and>
   handle_button_press (key ''.'')
     \<lparr>input_str = ''1.'', storedValue = dzero, currentOp = CHR 0x00, resetInput = False\<rparr> =
   Inr \<lparr>input_str = ''1.'', storedValue = dzero, currentOp = CHR 0x00, resetInput = False\<rparr> \<and>
   handle_button_press (key ''7'')
     \<lparr>input_str = ''0'', storedValue = dzero, currentOp = CHR 0x00, resetInput = False\<rparr> =
   Inr \<lparr>input_str = ''7'', storedValue = dzero, currentOp = CHR 0x00, resetInput = False\<rparr> \<and>
   handle_button_press (key ''5'')
     \<lparr>input_str = ''1.'', storedValue = dzero, currentOp = CHR 0x00, resetInput = False\<rparr> =
   Inr \<lparr>input_str = ''1.5'', storedValue = dzero, currentOp = CHR 0x00, resetInput = False\<rparr>"
proof -
  have k: "btn_type (key ''.'') = ''number''" "btn_type (key ''7'') = ''number''"
    "btn_type (key ''5'') = ''number''" "btn_value (key ''.'') = CHR ''.''"
    "btn_value (key ''7'') = CHR ''7''" "btn_value (key ''5'') = CHR ''5''"
    "label (key ''.'') = ''.''" "label (key ''7'') = ''7''" "label (key ''5'') = ''5''"
    by (simp_all add: key_def buttons_def labels_def make_button_def)
  show ?thesis
    using
      C7_number_entry [OF k(1),
        of "\<lparr>input_str = ''0'', storedValue = dzero, currentOp = CHR 0x00, resetInput = True\<rparr>"]
      C7_number_entry [OF k(1),
        of "\<lparr>input_str = ''1.'', storedValue = dzero, currentOp = CHR 0x00, resetInput = False\<rparr>"]
      C7_number_entry [OF k(2),
        of "\<lparr>input_str = ''0'', storedValue = dzero, currentOp = CHR 0x00, resetInput = False\<rparr>"]
      C7_number_entry [OF k(3),
        of "\<lparr>input_str = ''1.'', storedValue = dzero, currentOp = CHR 0x00, resetInput = False\<rparr>"]
    by (simp add: k)
qed

text \<open>Two decimal points in one number: Clear, 1, ., ., 5 shows "1.5".\<close>

lemma two_decimal_points:
  "press_all (map key [''C'', ''1'', ''.'', ''.'', ''5'']) initial_state =
   Inr \<lparr>input_str = ''1.5'', storedValue = dzero, currentOp = CHR 0x00, resetInput = False\<rparr>"
  by (simp add: calc_eval cong: eval_cong)

section \<open>Division by zero\<close>

text \<open>
  Claim C1, as the code has it. In every state whose pending operator is \<^verbatim>\<open>/\<close> and whose
  display parses to a right operand equal to 0 (a display that does not parse counts as
  0.0), Equals sets the display to "Error", resets the stored operand to 0, clears the
  pending operator and sets the new-entry flag. The text "Error: Div by 0" is what the
  separate helper \<^verbatim>\<open>safeCalculate\<close> returns for the same operands.
\<close>

theorem C1_division_by_zero:
  assumes "btn_type btn = ''equals''" and "currentOp st = CHR ''/''"
    and "feq (stod_or_zero (input_str st)) dzero"
  shows "handle_button_press btn st =
           Inr \<lparr>input_str = ''Error'', storedValue = dzero, currentOp = CHR 0x00,
                resetInput = True\<rparr> \<and>
         safeCalculate (storedValue st) (stod_or_zero (input_str st)) (currentOp st) =
           ''Error: Div by 0''"
  using assms
  by (simp add: handle_button_press_def calculate_result_def safeCalculate_def fne_def Let_def)

theorem C1_division_by_zero_witness:
  "handle_button_press (key ''='')
     \<lparr>input_str = ''0'', storedValue = of_decimal 5 0, currentOp = CHR ''/'', resetInput = False\<rparr> =
   Inr \<lparr>input_str = ''Error'', storedValue = dzero, currentOp = CHR 0x00, resetInput = True\<rparr> \<and>
   safeCalculate (of_decimal 5 0) (stod_or_zero ''0'') (CHR ''/'') = ''Error: Div by 0''"
proof -
  have t: "btn_type (key ''='') = ''equals''"
    by (simp add: key_def buttons_def labels_def make_button_def)
  have z: "feq (stod_or_zero ''0'') dzero"
    by (simp add: parse_eval fp_eval cong: eval_cong)
  show ?thesis
    using C1_division_by_zero [OF t, of
        "\<lparr>input_str = ''0'', storedValue = of_decimal 5 0, currentOp = CHR ''/'', resetInput = False\<rparr>"] z
    by simp
qed

text \<open>
  The claim as written fails: after Clear, 5, /, 0, = the display is "Error", not
  "Error: Div by 0".
\<close>

theorem C1_sentinel_counterexample:
  "press_all (map key [''C'', ''5'', ''/'', ''0'', ''='']) initial_state =
     Inr \<lparr>input_str = ''Error'', storedValue = dzero, currentOp = CHR 0x00, resetInput = True\<rparr> \<and>
   ''Error'' \<noteq> ''Error: Div by 0''"
  by (simp add: calc_eval parse_eval fp_eval cong: eval_cong)

text \<open>
  Claim C3 fails on the path that evaluates a pending operation first. With 5 stored,
  \<^verbatim>\<open>/\<close> pending and "0" typed, an operator button makes \<^verbatim>\<open>calculate_result\<close> put
  "Error" on the display, and the unguarded \<^verbatim>\<open>std::stod(input_str)\<close> that follows
  throws \<^verbatim>\<open>std::invalid_argument\<close>: the press raises instead of treating the text as
  0.0. The key sequence Clear, 5, /, 0, + reaches it.
\<close>

theorem C3_operator_after_division_by_zero:
  "handle_button_press (key ''+'')
     \<lparr>input_str = ''0'', storedValue = of_decimal 5 0, currentOp = CHR ''/'', resetInput = False\<rparr> =
   Inl invalid_argument \<and>
   press_all (map key [''C'', ''5'', ''/'', ''0'', ''+'']) initial_state = Inl invalid_argument"
  by (simp add: calc_eval parse_eval fp_eval cong: eval_cong)

section \<open>Results that are not finite\<close>

lemma near_integer_Infinity: "\<not> near_integer (Infinity s)"
  by (simp add: near_integer_def default_nan_def)

lemma near_integer_NaN: "\<not> near_integer (NaN s)"
  by (simp add: near_integer_def)

lemma format_double_nonfinite:
  assumes "isnan r \<or> isinf r"
  shows "format_double r = sign_str (signbit r) @ (if isnan r then ''nan'' else ''inf'')"
  using assms
  by (cases r) (simp_all add: format_double_def near_integer_Infinity near_integer_NaN fmt_general_def)

lemma stod_inf: "stod (sign_str s @ ''inf'') = Inr (Infinity s)"
  by (cases s) (simp_all add: parse_eval sign_str_def cong: eval_cong)

lemma stod_nan: "stod (sign_str s @ ''nan'') = Inr (NaN s)"
  by (cases s) (simp_all add: parse_eval sign_str_def cong: eval_cong)

lemma stod_format_nonfinite:
  assumes "isnan r \<or> isinf r"
  shows "stod (format_double r) = Inr r"
  using assms
  by (cases r) (simp_all add: format_double_nonfinite stod_inf stod_nan)

lemma calculate_result_value:
  assumes "currentOp st \<noteq> CHR 0x00"
    and "\<not> (currentOp st = CHR ''/'' \<and> feq (stod_or_zero (input_str st)) dzero)"
  shows "calculate_result st =
           \<lparr>input_str = format_double
              (binary_result (currentOp st) (storedValue st) (stod_or_zero (input_str st))),
            storedValue = binary_result (currentOp st) (storedValue st) (stod_or_zero (input_str st)),
            currentOp = CHR 0x00, resetInput = True\<rparr>"
  using assms by (auto simp: calculate_result_def fne_def Let_def)

lemma safeCalculate_nonfinite:
  assumes "op \<in> set ''+-*/''" and "\<not> (op = CHR ''/'' \<and> feq b dzero)"
    and "isnan (binary_result op a b) \<or> isinf (binary_result op a b)"
  shows "safeCalculate a b op = ''Error''"
  using assms by (auto simp: safeCalculate_def binary_result_def)

text \<open>
  Claim C5, as the code has it. \<^verbatim>\<open>calculate_result\<close> does not test its result for NaN
  or infinity. When the pending operation (not a division by zero) yields a NaN or an
  infinity \<open>r\<close>, Equals shows \<open>r\<close> as the formatter prints it ("nan" or "inf", with a
  minus sign when the sign bit is set), stores \<open>r\<close> itself as the stored operand, clears
  the pending operator and sets the new-entry flag; a chained operator button does the
  same, reads the text back to the same \<open>r\<close> and makes itself the pending operator. The
  text "Error" for such a result is what the separate helper \<^verbatim>\<open>safeCalculate\<close> returns.
\<close>

theorem C5_nan_or_infinite_result:
  assumes "currentOp st \<noteq> CHR 0x00"
    and "\<not> (currentOp st = CHR ''/'' \<and> feq (stod_or_zero (input_str st)) dzero)"
    and "r = binary_result (currentOp st) (storedValue st) (stod_or_zero (input_str st))"
    and "isnan r \<or> isinf r"
  shows "(btn_type eq = ''equals'' \<longrightarrow>
            handle_button_press eq st =
              Inr \<lparr>input_str = sign_str (signbit r) @ (if isnan r then ''nan'' else ''inf''),
                   storedValue = r, currentOp = CHR 0x00, resetInput = True\<rparr>) \<and>
         (btn_type op = ''operator'' \<and> \<not> resetInput st \<longrightarrow>
            handle_button_press op st =
              Inr \<lparr>input_str = sign_str (signbit r) @ (if isnan r then ''nan'' else ''inf''),
                   storedValue = r, currentOp = btn_value op, resetInput = True\<rparr>) \<and>
         (currentOp st \<in> set ''+-*/'' \<longrightarrow>
            safeCalculate (storedValue st) (stod_or_zero (input_str st)) (currentOp st) = ''Error'')"
proof -
  have calc: "calculate_result st =
      \<lparr>input_str = format_double r, storedValue = r, currentOp = CHR 0x00, resetInput = True\<rparr>"
    using calculate_result_value [OF assms(1) assms(2)] assms(3) by simp
  have fmt: "format_double r = sign_str (signbit r) @ (if isnan r then ''nan'' else ''inf'')"
    using assms(4) by (rule format_double_nonfinite)
  have reparse: "stod (format_double r) = Inr r"
    using assms(4) by (rule stod_format_nonfinite)
  have a: "btn_type eq = ''equals'' \<longrightarrow>
            handle_button_press eq st =
              Inr \<lparr>input_str = sign_str (signbit r) @ (if isnan r then ''nan'' else ''inf''),
                   storedValue = r, currentOp = CHR 0x00, resetInput = True\<rparr>"
    using calc fmt by (simp add: handle_button_press_def)
  have b: "btn_type op = ''operator'' \<and> \<not> resetInput st \<longrightarrow>
            handle_button_press op st =
              Inr \<lparr>input_str = sign_str (signbit r) @ (if isnan r then ''nan'' else ''inf''),
                   storedValue = r, currentOp = btn_value op, resetInput = True\<rparr>"
    using calc reparse fmt assms(1) by (simp add: handle_button_press_def)
  have c: "currentOp st \<in> set ''+-*/'' \<longrightarrow>
            safeCalculate (storedValue st) (stod_or_zero (input_str st)) (currentOp st) = ''Error''"
    using safeCalculate_nonfinite [of "currentOp st" "stod_or_zero (input_str st)" "storedValue st"]
      assms(2) assms(3) assms(4) by blast
  from a b c show ?thesis by blast
qed

text \<open>The largest finite double times 2 overflows to \<open>+\<infinity>\<close>.\<close>

lemma overflow_product:
  "binary_result (CHR ''*'') (Finite False 9007199254740991 971) (stod_or_zero ''2'') =
   Infinity False"
  by (simp add: binary_result_def parse_eval fp_eval cong: eval_cong)

theorem C5_nan_or_infinite_result_witness:
  "handle_button_press (key ''='')
     \<lparr>input_str = ''2'', storedValue = Finite False 9007199254740991 971,
      currentOp = CHR ''*'', resetInput = False\<rparr> =
   Inr \<lparr>input_str = ''inf'', storedValue = Infinity False, currentOp = CHR 0x00,
        resetInput = True\<rparr> \<and>
   handle_button_press (key ''+'')
     \<lparr>input_str = ''2'', storedValue = Finite False 9007199254740991 971,
      currentOp = CHR ''*'', resetInput = False\<rparr> =
   Inr \<lparr>input_str = ''inf'', storedValue = Infinity False, currentOp = CHR ''+'',
        resetInput = True\<rparr> \<and>
   safeCalculate (Finite False 9007199254740991 971) (stod_or_zero ''2'') (CHR ''*'') = ''Error''"
proof -
  let ?st = "\<lparr>input_str = ''2'', storedValue = Finite False 9007199254740991 971,
      currentOp = CHR ''*'', resetInput = False\<rparr>"
  have k: "btn_type (key ''='') = ''equals''" "btn_type (key ''+'') = ''operator''"
    "btn_value (key ''+'') = CHR ''+''"
    by (simp_all add: key_def buttons_def labels_def make_button_def)
  have h1: "currentOp ?st \<noteq> CHR 0x00" by simp
  have h2: "\<not> (currentOp ?st = CHR ''/'' \<and> feq (stod_or_zero (input_str ?st)) dzero)" by simp
  have h3: "Infinity False =
      binary_result (currentOp ?st) (storedValue ?st) (stod_or_zero (input_str ?st))"
    using overflow_product by simp
  have h4: "isnan (Infinity False) \<or> isinf (Infinity False)" by simp
  show ?thesis
    using C5_nan_or_infinite_result [OF h1 h2 h3 h4, of "key ''=''" "key ''+''"] k
    by (simp add: sign_str_def)
qed

text \<open>
  The claim as written fails: with the largest finite double stored, \<^verbatim>\<open>*\<close> pending and
  "2" typed, the result is infinite, and the display becomes "inf", not "Error", while
  the stored operand becomes the infinity, not 0.
\<close>

theorem C5_overflow_counterexample:
  "isinf (binary_result (CHR ''*'') (Finite False 9007199254740991 971) (stod_or_zero ''2'')) \<and>
   calculate_result
     \<lparr>input_str = ''2'', storedValue = Finite False 9007199254740991 971,
      currentOp = CHR ''*'', resetInput = False\<rparr> =
   \<lparr>input_str = ''inf'', storedValue = Infinity False, currentOp = CHR 0x00,
    resetInput = True\<rparr> \<and>
   ''inf'' \<noteq> ''Error'' \<and> \<not> feq (Infinity False) dzero"
proof -
  have "format_double (Infinity False) = ''inf''"
    using format_double_nonfinite [of "Infinity False"] by (simp add: sign_str_def)
  then show ?thesis
    using overflow_product by (simp add: calculate_result_def Let_def fne_def dzero_def)
qed

section \<open>Chained operators\<close>

text \<open>
  What an operator button does when an operator is pending and an operand has been
  typed: \<^verbatim>\<open>calculate_result\<close> evaluates the pending operation and stores the result
  \<open>r\<close>; the next statement, \<^verbatim>\<open>storedValue = std::stod(input_str)\<close>, then replaces the
  stored result by whatever is read back from the display text \<open>format_double r\<close>, or
  raises.
\<close>

lemma chained_operator_step:
  assumes "btn_type btn = ''operator''" and "\<not> resetInput st" and "currentOp st \<noteq> CHR 0x00"
    and "\<not> (currentOp st = CHR ''/'' \<and> feq (stod_or_zero (input_str st)) dzero)"
    and "r = binary_result (currentOp st) (storedValue st) (stod_or_zero (input_str st))"
  shows "calculate_result st =
           \<lparr>input_str = format_double r, storedValue = r, currentOp = CHR 0x00,
            resetInput = True\<rparr> \<and>
         handle_button_press btn st =
           (case stod (format_double r) of
              Inl ex \<Rightarrow> Inl ex
            | Inr v \<Rightarrow> Inr \<lparr>input_str = format_double r, storedValue = v,
                            currentOp = btn_value btn, resetInput = True\<rparr>)"
proof -
  have calc: "calculate_result st =
      \<lparr>input_str = format_double r, storedValue = r, currentOp = CHR 0x00, resetInput = True\<rparr>"
    using calculate_result_value [OF assms(3) assms(4)] assms(5) by simp
  have step: "handle_button_press btn st =
           (case stod (format_double r) of
              Inl ex \<Rightarrow> Inl ex
            | Inr v \<Rightarrow> Inr \<lparr>input_str = format_double r, storedValue = v,
                            currentOp = btn_value btn, resetInput = True\<rparr>)"
    using assms(1) assms(2) assms(3) calc
    by (simp add: handle_button_press_def split: sum.splits)
  from calc step show ?thesis by blast
qed

text \<open>Evaluation is left to right without precedence: Clear, 2, +, 3, *, 4, = shows "20".\<close>

lemma left_to_right_trace:
  "press_all (map key [''C'', ''2'', ''+'', ''3'', ''*'', ''4'', ''='']) initial_state =
   Inr \<lparr>input_str = ''20'', storedValue = of_decimal 20 0, currentOp = CHR 0x00,
        resetInput = True\<rparr>"
  by (simp add: calc_eval parse_eval format_eval fp_eval cong: eval_cong)

text \<open>
  Claim C2 says that a chained operator feeds the result of the pending operation back
  as the new stored operand. The code does not: with 1 stored, \<^verbatim>\<open>/\<close> pending and "3"
  typed, the quotient is the double nearest to 1/3, which \<^verbatim>\<open>calculate_result\<close> stores,
  but the \<^verbatim>\<open>*\<close> button then overwrites it with the double nearest to 0.3333333333,
  read back from the display. So Clear, 1, /, 3, *, 3000, = displays "999.9999999",
  while the same calculation with Equals pressed before the second operator,
  Clear, 1, /, 3, =, *, 3000, =, keeps the quotient and displays "1000".
\<close>

theorem C2_chained_operator_stores_reparsed_display:
  "calculate_result
     \<lparr>input_str = ''3'', storedValue = of_decimal 1 0, currentOp = CHR ''/'', resetInput = False\<rparr> =
   \<lparr>input_str = ''0.3333333333'', storedValue = Finite False 6004799503160661 (- 54),
    currentOp = CHR 0x00, resetInput = True\<rparr> \<and>
   handle_button_press (key ''*'')
     \<lparr>input_str = ''3'', storedValue = of_decimal 1 0, currentOp = CHR ''/'', resetInput = False\<rparr> =
   Inr \<lparr>input_str = ''0.3333333333'', storedValue = Finite False 6004799502560181 (- 54),
        currentOp = CHR ''*'', resetInput = True\<rparr> \<and>
   press_all (map key [''C'', ''1'', ''/'', ''3'', ''*'', ''3'', ''0'', ''0'', ''0'', ''=''])
     initial_state =
   Inr \<lparr>input_str = ''999.9999999'', storedValue = Finite False 8796093021328390 (- 43),
        currentOp = CHR 0x00, resetInput = True\<rparr> \<and>
   press_all (map key [''C'', ''1'', ''/'', ''3'', ''='', ''*'', ''3'', ''0'', ''0'', ''0'', ''=''])
     initial_state =
   Inr \<lparr>input_str = ''1000'', storedValue = of_decimal 1000 0, currentOp = CHR 0x00,
        resetInput = True\<rparr>"
  by (simp add: calc_eval parse_eval format_eval fp_eval cong: eval_cong)

section \<open>The formatter\<close>

subsection \<open>Digits\<close>

lemma digit_char_isdigit: "k < 10 \<Longrightarrow> isdigit (''0123456789'' ! k)"
proof -
  assume "k < 10"
  then have "''0123456789'' ! k \<in> set ''0123456789''"
    by (intro nth_mem) simp
  then show ?thesis
    by (auto simp: isdigit_def digit_val_def)
qed



lemma digits_of_isdigit: "list_all isdigit (digits_of n)"
proof (induction n rule: digits_of.induct)
  case (1 n)
  show ?case
  proof (cases "n < 10")
    case True
    then show ?thesis
      by (subst digits_of.simps) (simp add: digit_char_isdigit)
  next
    case False
    have "n mod 10 < 10" by simp
    then have "isdigit (''0123456789'' ! (n mod 10))" by (rule digit_char_isdigit)
    with False "1.IH" show ?thesis
      by (subst digits_of.simps) simp
  qed
qed







subsection \<open>The ten significant digits\<close>















subsection \<open>Trimming trailing zeros\<close>

lemma isdigit_simps:
  "isdigit (CHR ''0'')" "\<not> isdigit (CHR ''.'')" "\<not> isdigit (CHR ''-'')" "\<not> isdigit (CHR ''e'')"
  by (simp_all add: isdigit_def digit_val_def)


lemma isdigit_not_e: "list_all isdigit cs \<Longrightarrow> CHR ''e'' \<notin> set cs"
  using isdigit_simps(4) by (auto simp: list_all_iff)

lemma filter_isdigit_all: "list_all isdigit cs \<Longrightarrow> filter isdigit cs = cs"
  by (simp add: list_all_iff)

lemma pad_zeros_isdigit: "list_all isdigit ds \<Longrightarrow> list_all isdigit (pad_zeros w ds)"
  using isdigit_simps(1) by (auto simp: pad_zeros_def list_all_iff)

















lemma fixed_parts_isdigit:
  "list_all isdigit (digits_of a)" "list_all isdigit (pad_zeros p (digits_of b))"
  by (simp_all add: digits_of_isdigit pad_zeros_isdigit)

lemma fixed_digits_no_e: "CHR ''e'' \<notin> set (fixed_digits p x)"
proof -
  have "CHR ''e'' \<notin> set (digits_of a)" for a
    using digits_of_isdigit by (rule isdigit_not_e)
  moreover have "CHR ''e'' \<notin> set (pad_zeros p (digits_of b))" for b
    using fixed_parts_isdigit(2) by (rule isdigit_not_e)
  ultimately show ?thesis
    by (simp add: fixed_digits_def Let_def)
qed

lemma filter_isdigit_fixed:
  "filter isdigit (fixed_digits p x) =
     digits_of (round_half_even (scale10 x (int p)) div 10 ^ p) @
     (if p = 0 then [] else pad_zeros p (digits_of (round_half_even (scale10 x (int p)) mod 10 ^ p)))"
  using isdigit_simps(2)
  by (simp add: fixed_digits_def Let_def filter_isdigit_all fixed_parts_isdigit)









subsection \<open>What the formatter prints\<close>










section \<open>Properties of the history log\<close>

lemma getHistory_addEntry:
  assumes "length (history h) \<le> maxHistory"
  shows "getHistory (addEntry expr res h) =
     take maxHistory (\<lparr>expression = expr, result = res\<rparr> # history h)"
proof (cases "length (history h) = maxHistory")
  case True
  then have "butlast (\<lparr>expression = expr, result = res\<rparr> # history h) =
             take maxHistory (\<lparr>expression = expr, result = res\<rparr> # history h)"
    by (simp add: butlast_conv_take del: butlast.simps)
  with True show ?thesis
    by (simp add: addEntry_def getHistory_def Let_def del: butlast.simps take_Suc_Cons)
next
  case False
  with assms have "length (history h) < maxHistory" by simp
  then show ?thesis
    by (simp add: addEntry_def getHistory_def Let_def)
qed

lemma take_append_take: "take n (xs @ take n ys) = take n (xs @ ys)"
  by (simp add: min_def)

lemma length_addEntry:
  "length (history h) \<le> maxHistory \<Longrightarrow> length (history (addEntry expr res h)) \<le> maxHistory"
  by (auto simp: addEntry_def Let_def maxHistory_def)

lemma addEntries_take:
  "length (history h) \<le> maxHistory \<Longrightarrow>
   getHistory (addEntries es h) = take maxHistory (rev (map entry_of es) @ history h)"
proof (induction es arbitrary: h)
  case Nil
  then show ?case by (simp add: getHistory_def)
next
  case (Cons p es)
  obtain expr res where p: "p = (expr, res)" by (cases p)
  let ?h = "addEntry expr res h"
  let ?e = "\<lparr>expression = expr, result = res\<rparr>"
  have pe: "entry_of p = ?e" by (simp add: p entry_of_def)
  have len: "length (history ?h) \<le> maxHistory"
    using Cons.prems by (rule length_addEntry)
  have step: "history ?h = take maxHistory (?e # history h)"
    using getHistory_addEntry [OF Cons.prems] by (simp add: getHistory_def)
  have "getHistory (addEntries (p # es) h) =
          take maxHistory (rev (map entry_of es) @ history ?h)"
    using Cons.IH [OF len] by (simp add: p)
  also have "\<dots> = take maxHistory (rev (map entry_of es) @ ?e # history h)"
    by (simp only: step take_append_take)
  finally show ?case
    using pe by simp
qed

text \<open>
  Claim C9. Starting from an empty log, after any sequence of appends: each append puts
  the new entry at the front and keeps the ten most recent entries of what was there;
  the log read back by \<open>getHistory\<close> is the appended entries most-recent-first, cut to
  the ten newest, so it never holds more than ten; and after exactly eleven appends it
  holds ten entries, the reverse of all but the first-appended one.
\<close>

theorem C9_history_cap:
  "(length (history h) \<le> maxHistory \<longrightarrow>
      getHistory (addEntry expr res h) =
        take 10 (\<lparr>expression = expr, result = res\<rparr> # getHistory h)) \<and>
   getHistory (addEntries es new_history) = take 10 (rev (map entry_of es)) \<and>
   length (getHistory (addEntries es new_history)) \<le> 10 \<and>
   (length es = 11 \<longrightarrow>
      length (getHistory (addEntries es new_history)) = 10 \<and>
      getHistory (addEntries es new_history) = rev (map entry_of (tl es)))"
proof -
  have all: "getHistory (addEntries es new_history) = take 10 (rev (map entry_of es))"
    using addEntries_take [of new_history es] by (simp add: new_history_def maxHistory_def)
  have one: "length (history h) \<le> maxHistory \<longrightarrow>
      getHistory (addEntry expr res h) =
        take 10 (\<lparr>expression = expr, result = res\<rparr> # getHistory h)"
    using getHistory_addEntry [of h expr res] by (simp add: maxHistory_def getHistory_def)
  have eleven: "length es = 11 \<longrightarrow> take 10 (rev (map entry_of es)) = rev (map entry_of (tl es))"
  proof
    assume len: "length es = 11"
    then obtain p ps where es: "es = p # ps" by (cases es) auto
    with len have "length ps = 10" by simp
    then show "take 10 (rev (map entry_of es)) = rev (map entry_of (tl es))"
      by (simp add: es)
  qed
  from all one eleven show ?thesis by auto
qed

theorem C9_history_cap_witness:
  "getHistory (addEntries
     [(''1'', ''a''), (''2'', ''b''), (''3'', ''c''), (''4'', ''d''), (''5'', ''e''), (''6'', ''f''),
      (''7'', ''g''), (''8'', ''h''), (''9'', ''i''), (''10'', ''j''), (''11'', ''k'')] new_history) =
   map entry_of
     [(''11'', ''k''), (''10'', ''j''), (''9'', ''i''), (''8'', ''h''), (''7'', ''g''), (''6'', ''f''),
      (''5'', ''e''), (''4'', ''d''), (''3'', ''c''), (''2'', ''b'')] \<and>
   getHistory (addEntry ''12'' ''l'' \<lparr>history = [entry_of (''11'', ''k'')]\<rparr>) =
     [entry_of (''12'', ''l''), entry_of (''11'', ''k'')]"
  using C9_history_cap [of "\<lparr>history = [entry_of (''11'', ''k'')]\<rparr>" "''12''" "''l''"
      "[(''1'', ''a''), (''2'', ''b''), (''3'', ''c''), (''4'', ''d''), (''5'', ''e''), (''6'', ''f''),
        (''7'', ''g''), (''8'', ''h''), (''9'', ''i''), (''10'', ''j''), (''11'', ''k'')]"]
  by (simp add: maxHistory_def getHistory_def entry_of_def)

section \<open>Properties of Backspace\<close>

text \<open>
  Claim C4, as the code has it. Backspace drops the last character of every buffer longer
  than one character and resets every shorter buffer to "0". The error texts get no
  treatment of their own: being longer than one character they lose their last character
  too, "Error" becoming "Erro" and "Error: Div by 0" becoming "Error: Div by ".
\<close>

theorem C4_backspace:
  "(length display > 1 \<longrightarrow> backspaceInput display = butlast display) \<and>
   (length display \<le> 1 \<longrightarrow> backspaceInput display = ''0'') \<and>
   backspaceInput ''Error'' = ''Erro'' \<and>
   backspaceInput ''Error: Div by 0'' = ''Error: Div by ''"
  by (simp add: backspaceInput_def)

theorem C4_backspace_witness:
  "backspaceInput ''12.5'' = ''12.'' \<and> backspaceInput ''7'' = ''0''"
  using C4_backspace [of "''12.5''"] C4_backspace [of "''7''"] by simp

text \<open>
  The claim as written fails on the error texts: Backspace on "Error" does not give "0".
\<close>

theorem C4_sentinel_counterexample:
  "backspaceInput ''Error'' \<noteq> ''0'' \<and> backspaceInput ''Error: Div by 0'' \<noteq> ''0''"
  by (simp add: backspaceInput_def)

end
